theory Spec2Isabelle
  imports
    Main
    "HOL-Library.Char_ord"
    "HOL-Library.List_Lexorder"
    "HOL-Library.Product_Lexorder"
    "HOL-Library.Multiset"
    "HOL-Library.FSet"
    "HOL-Library.AList"
begin

section \<open>Data model\<close>

text \<open>
  Nodes and relations as the processors construct them:
  \<^verbatim>\<open>Node(db_ns, db_id, labels, data)\<close> and
  \<^verbatim>\<open>Relation(source_ns, source_id, target_ns, target_id, rel_type, data)\<close>.
  A Python \<^verbatim>\<open>dict\<close> with string keys is an association list in insertion order;
  \<open>map_of\<close> is the lookup and \<open>map fst\<close> the iteration over the keys. Strings are
  compared as Python compares them, character by character (\<open>Char_ord\<close>,
  \<open>List_Lexorder\<close>), and tuples lexicographically (\<open>Product_Lexorder\<close>).
\<close>

record Node =
  db_ns :: string
  db_id :: string
  labels :: "string list"
  data :: "(string \<times> string) list"

text \<open>The field \<^verbatim>\<open>data\<close> of a relation is named \<open>rel_data\<close>: one theory cannot
  hold two records with a field of the same name.\<close>

record Relation =
  source_ns :: string
  source_id :: string
  target_ns :: string
  target_id :: string
  rel_type :: string
  rel_data :: "(string \<times> string) list"

text \<open>
  Two functions of the pipeline live outside the files at hand and are parameters of
  every definition that calls them:
  \<^item> \<open>norm_id ns id\<close>, the normalised \<^verbatim>\<open>namespace:local_id\<close> string
    (\<^verbatim>\<open>indra_cogex.representation.norm_id\<close>);
  \<^item> \<open>chk ns id\<close> for \<^verbatim>\<open>assert_valid_db_refs({ns: id})\<close> of INDRA: \<open>None\<close> when the call
    returns, \<open>Some e\<close> when it raises the exception \<open>e\<close> (its message).
\<close>

type_synonym norm_id_fn = "string \<Rightarrow> string \<Rightarrow> string"
type_synonym check_fn = "string \<Rightarrow> string \<Rightarrow> string option"

text \<open>A logged rejection \<^verbatim>\<open>f"{idx}: {node} - {e}"\<close>: index, item and reason.\<close>

type_synonym 'a rejection = "nat \<times> 'a \<times> string"

section \<open>Validation (\<^verbatim>\<open>processor.py\<close>)\<close>

text \<open>
  \<^verbatim>\<open>validate_nodes\<close> is a generator over \<^verbatim>\<open>enumerate(nodes)\<close>; the model returns the
  nodes it yields together with the lines it logs. The counter \<open>idx\<close> is the position in
  the input, also past a rejected node.
\<close>

fun validate_nodes_from :: "check_fn \<Rightarrow> nat \<Rightarrow> Node list \<Rightarrow> Node list \<times> Node rejection list" where
  "validate_nodes_from chk idx [] = ([], [])"
| "validate_nodes_from chk idx (node # nodes) =
     (case validate_nodes_from chk (Suc idx) nodes of (kept, logged) \<Rightarrow>
        (case chk (db_ns node) (db_id node) of
           None \<Rightarrow> (node # kept, logged)
         | Some e \<Rightarrow> (kept, (idx, node, e) # logged)))"

definition validate_nodes :: "check_fn \<Rightarrow> Node list \<Rightarrow> Node list \<times> Node rejection list" where
  "validate_nodes chk nodes = validate_nodes_from chk 0 nodes"

text \<open>
  \<^verbatim>\<open>validate_relations\<close> checks the source first and the target second inside one
  \<^verbatim>\<open>try\<close>: the reason logged is that of the first check that raises.
\<close>

definition rel_check :: "check_fn \<Rightarrow> Relation \<Rightarrow> string option" where
  "rel_check chk rel =
     (case chk (source_ns rel) (source_id rel) of
        Some e \<Rightarrow> Some e
      | None \<Rightarrow> chk (target_ns rel) (target_id rel))"

fun validate_relations_from ::
  "check_fn \<Rightarrow> nat \<Rightarrow> Relation list \<Rightarrow> Relation list \<times> Relation rejection list" where
  "validate_relations_from chk idx [] = ([], [])"
| "validate_relations_from chk idx (rel # rels) =
     (case validate_relations_from chk (Suc idx) rels of (kept, logged) \<Rightarrow>
        (case rel_check chk rel of
           None \<Rightarrow> (rel # kept, logged)
         | Some e \<Rightarrow> (kept, (idx, rel, e) # logged)))"

definition validate_relations ::
  "check_fn \<Rightarrow> Relation list \<Rightarrow> Relation list \<times> Relation rejection list" where
  "validate_relations chk rels = validate_relations_from chk 0 rels"

section \<open>The dump (\<^verbatim>\<open>processor.py\<close>)\<close>

text \<open>\<^verbatim>\<open>sep.join(xs)\<close>.\<close>

fun join :: "string \<Rightarrow> string list \<Rightarrow> string" where
  "join sep [] = []"
| "join sep [x] = x"
| "join sep (x # y # ys) = x @ sep @ join sep (y # ys)"

text \<open>
  \<^verbatim>\<open>zip(a, b)\<close> over two iterators: each round takes the next item of \<open>a\<close> first and
  stops there when \<open>a\<close> is exhausted; only then it takes the next item of \<open>b\<close>, and an
  item of \<open>a\<close> already taken is lost when \<open>b\<close> is exhausted. The result is the list of
  pairs and what is left in both iterators.
\<close>

fun py_zip :: "'a list \<Rightarrow> 'b list \<Rightarrow> ('a \<times> 'b) list \<times> 'a list \<times> 'b list" where
  "py_zip [] ys = ([], [], ys)"
| "py_zip (x # xs) [] = ([], xs, [])"
| "py_zip (x # xs) (y # ys) =
     (case py_zip xs ys of (ps, xs', ys') \<Rightarrow> ((x, y) # ps, xs', ys'))"

text \<open>The sort keys of \<^verbatim>\<open>_dump_nodes\<close> and \<^verbatim>\<open>_dump_edges\<close>.\<close>

definition node_key :: "Node \<Rightarrow> string \<times> string" where
  "node_key x = (db_ns x, db_id x)"

definition rel_key :: "Relation \<Rightarrow> string \<times> string \<times> string \<times> string" where
  "rel_key r = (source_ns r, source_id r, target_ns r, target_id r)"

text \<open>\<^verbatim>\<open>sorted(set(key for node in nodes for key in node.data))\<close>.\<close>

definition node_metadata :: "Node list \<Rightarrow> string list" where
  "node_metadata nodes = sorted_list_of_set (set (concat (map (\<lambda>node. map fst (data node)) nodes)))"

definition rel_metadata :: "Relation list \<Rightarrow> string list" where
  "rel_metadata rels = sorted_list_of_set (set (concat (map (\<lambda>rel. map fst (rel_data rel)) rels)))"

text \<open>One item of the generator \<^verbatim>\<open>node_rows\<close>; \<^verbatim>\<open>node.data.get(key, "")\<close>.\<close>

definition node_row :: "norm_id_fn \<Rightarrow> string list \<Rightarrow> Node \<Rightarrow> string list" where
  "node_row norm_id metadata node =
     norm_id (db_ns node) (db_id node) # join '';'' (labels node) #
     map (\<lambda>key. case map_of (data node) key of Some v \<Rightarrow> v | None \<Rightarrow> []) metadata"

text \<open>
  One item of the generator \<^verbatim>\<open>edge_rows\<close>: start id, end id, relation type and the
  property cells; \<^verbatim>\<open>rel.data.get(key)\<close> is \<^verbatim>\<open>None\<close> for a missing key.
\<close>

type_synonym edge_row = "string \<times> string \<times> string \<times> string option list"

definition edge_row :: "norm_id_fn \<Rightarrow> string list \<Rightarrow> Relation \<Rightarrow> edge_row" where
  "edge_row norm_id metadata rel =
     (norm_id (source_ns rel) (source_id rel),
      norm_id (target_ns rel) (target_id rel),
      rel_type rel,
      map (\<lambda>key. map_of (rel_data rel) key) metadata)"

text \<open>\<^verbatim>\<open>csv.writer.writerow\<close> on an edge row: the fields of the line, \<^verbatim>\<open>None\<close> written
  as the empty field.\<close>

fun writerow :: "edge_row \<Rightarrow> string list" where
  "writerow (start, end, type, cells) =
     start # end # type # map (\<lambda>c. case c of Some v \<Rightarrow> v | None \<Rightarrow> []) cells"

text \<open>A file is the list of the rows written to it, each row the list of its fields.\<close>

type_synonym table = "string list list"

record node_dump =
  nodes_pickle :: "Node list"
  nodes_file :: table
  nodes_sample_file :: "table option"
  nodes_log :: "Node rejection list"

text \<open>
  \<^verbatim>\<open>_dump_nodes_to_path(nodes, nodes_path, sample_path)\<close>. \<open>sample\<close> says whether a sample
  path was given. The loop over \<^verbatim>\<open>zip(range(10), node_rows)\<close> writes each row to both
  files; \<^verbatim>\<open>writerows(node_rows)\<close> then writes what the generator has left.
\<close>

definition dump_nodes_to_path :: "norm_id_fn \<Rightarrow> check_fn \<Rightarrow> Node list \<Rightarrow> bool \<Rightarrow> table \<times> table option \<times> Node rejection list" where
  "dump_nodes_to_path norm_id chk nodes0 sample =
     (case validate_nodes chk nodes0 of (nodes, logged) \<Rightarrow>
      let metadata = node_metadata nodes;
          node_rows = map (node_row norm_id metadata) nodes;
          header = ''id:ID'' # '':LABEL'' # metadata;
          node_file = [header]
      in if sample then
           (let node_sample_file = [header] in
            case py_zip [0..<10] node_rows of (pairs, _, node_rows') \<Rightarrow>
            case foldl (\<lambda>(sf, nf) (_, node_row). (sf @ [node_row], nf @ [node_row]))
                   (node_sample_file, node_file) pairs of
              (node_sample_file', node_file') \<Rightarrow>
                (node_file' @ node_rows', Some node_sample_file', logged))
         else (node_file @ node_rows, None, logged))"

text \<open>\<^verbatim>\<open>_dump_nodes\<close>: sort by \<^verbatim>\<open>(db_ns, db_id)\<close> (a stable sort), pickle, and dump with
  the sample path \<^verbatim>\<open>nodes_sample.tsv\<close>.\<close>

definition dump_nodes :: "norm_id_fn \<Rightarrow> check_fn \<Rightarrow> Node list \<Rightarrow> node_dump" where
  "dump_nodes norm_id chk get_nodes =
     (let nodes = sort_key node_key get_nodes in
      case dump_nodes_to_path norm_id chk nodes True of (nf, sf, logged) \<Rightarrow>
        \<lparr>nodes_pickle = nodes, nodes_file = nf, nodes_sample_file = sf, nodes_log = logged\<rparr>)"

text \<open>
  A \<^verbatim>\<open>collections.Counter\<close> is a dict in insertion order; \<^verbatim>\<open>counter[k] += 1\<close> starts a
  missing key at 0. \<^verbatim>\<open>most_common()\<close> is
  \<^verbatim>\<open>sorted(self.items(), key=itemgetter(1), reverse=True)\<close>: a stable sort, descending,
  ties in insertion order.
\<close>

definition counter_incr :: "'k \<Rightarrow> ('k \<times> nat) list \<Rightarrow> ('k \<times> nat) list" where
  "counter_incr k counter = AList.map_default k 1 (\<lambda>c. c + 1) counter"

definition most_common :: "('k \<times> nat) list \<Rightarrow> ('k \<times> nat) list" where
  "most_common counter = rev (sort_key snd (rev counter))"

text \<open>
  A line of the summary after the header: \<^verbatim>\<open>print(*row, count, sep="\t")\<close>. The key
  \<open>row\<close> of the counter is \<^verbatim>\<open>edge_row[2]\<close>, a \<^verbatim>\<open>str\<close>, and \<^verbatim>\<open>*row\<close> unpacks it into
  its characters, one field each; the count is the last field.
\<close>

definition summary_line :: "string \<times> nat \<Rightarrow> string list \<times> nat" where
  "summary_line = (\<lambda>(row, count). (map (\<lambda>c. [c]) row, count))"

record edge_dump =
  edges_file :: table
  edges_sample_file :: table
  edges_summary_header :: "string list"
  edges_summary_rows :: "(string list \<times> nat) list"
  edges_counter :: "(string \<times> nat) list"
  edges_log :: "Relation rejection list"

text \<open>One round of either writing loop of \<^verbatim>\<open>_dump_edges\<close> on the full table:
  \<^verbatim>\<open>edge_writer.writerow(edge_row); counter[edge_row[2]] += 1\<close>.\<close>

definition write_edge :: "table \<times> (string \<times> nat) list \<Rightarrow> edge_row \<Rightarrow> table \<times> (string \<times> nat) list" where
  "write_edge = (\<lambda>(ef, counter) row.
     (ef @ [writerow row], counter_incr (fst (snd (snd row))) counter))"

text \<open>\<^verbatim>\<open>_dump_edges\<close>: validate, sort (stable) by the four-part key, write the table
  and its sample, count, and write the summary.\<close>

definition dump_edges :: "norm_id_fn \<Rightarrow> check_fn \<Rightarrow> Relation list \<Rightarrow> edge_dump" where
  "dump_edges norm_id chk get_relations =
     (case validate_relations chk get_relations of (valid, logged) \<Rightarrow>
      let rels = sort_key rel_key valid;
          metadata = rel_metadata rels;
          edge_rows = map (edge_row norm_id metadata) rels;
          counter = [];
          header = '':START_ID'' # '':END_ID'' # '':TYPE'' # metadata;
          edge_sample_file = [header];
          edge_file = [header]
      in case py_zip [0..<10] edge_rows of (pairs, _, edge_rows') \<Rightarrow>
         case foldl (\<lambda>(sf, st) (_, row). (sf @ [writerow row], write_edge st row))
                (edge_sample_file, (edge_file, counter)) pairs of
           (edge_sample_file', st') \<Rightarrow>
         case foldl write_edge st' edge_rows' of (edge_file', counter') \<Rightarrow>
           \<lparr>edges_file = edge_file',
            edges_sample_file = edge_sample_file',
            edges_summary_header = [''source_ns'', ''rel'', ''target_ns'', ''count''],
            edges_summary_rows = map summary_line (most_common counter'),
            edges_counter = counter',
            edges_log = logged\<rparr>)"

text \<open>\<^verbatim>\<open>dump\<close>: the nodes, then the edges. Neither step reads what the other wrote.\<close>

definition dump :: "norm_id_fn \<Rightarrow> check_fn \<Rightarrow> Node list \<Rightarrow> Relation list \<Rightarrow> node_dump \<times> edge_dump" where
  "dump norm_id chk get_nodes get_relations =
     (let nd = dump_nodes norm_id chk get_nodes;
          ed = dump_edges norm_id chk get_relations
      in (nd, ed))"

section \<open>Queries (\<^verbatim>\<open>client/queries.py\<close>)\<close>









section \<open>Gene list analysis (\<^verbatim>\<open>client/gene_list.py\<close>)\<close>

text \<open>
  \<^verbatim>\<open>_prepare_hypergeometric_test\<close> returns \<^verbatim>\<open>np.array(...)\<close> of four Python integers, and
  NumPy chooses the array's type from them: \<^verbatim>\<open>int64\<close> when every entry fits a signed
  64-bit integer; \<^verbatim>\<open>object\<close> (the Python integers themselves) when an entry fits neither
  \<^verbatim>\<open>int64\<close> nor \<^verbatim>\<open>uint64\<close>; \<^verbatim>\<open>uint64\<close> when every entry needs it; and \<^verbatim>\<open>float64\<close> when
  entries of the \<^verbatim>\<open>int64\<close> and of the \<^verbatim>\<open>uint64\<close> kind are mixed. A \<^verbatim>\<open>float64\<close> keeps 53
  significant bits: the conversion rounds to the nearest such value, ties to the even
  one. Every stored value is an integer, so the cells are read back as integers.
\<close>

text \<open>\<^verbatim>\<open>int.bit_length()\<close> of a natural number.\<close>

function bit_length :: "nat \<Rightarrow> nat" where
  "bit_length n = (if n = 0 then 0 else Suc (bit_length (n div 2)))"
  by pat_completeness auto
termination
  by (relation "measure id") auto

declare bit_length.simps [simp del]

definition float64_of_int :: "int \<Rightarrow> int" where
  "float64_of_int x =
     (let m = nat \<bar>x\<bar>; n = bit_length m in
      if n \<le> 53 then x
      else
        let e = n - 53; q = m div 2 ^ e; r = m mod 2 ^ e; half = 2 ^ (e - 1);
            q' = (if half < r \<or> (r = half \<and> odd q) then q + 1 else q)
        in sgn x * int (q' * 2 ^ e))"

datatype dtype = Int64 | UInt64 | Float64 | Object

record ndarray =
  dtype :: dtype
  cells :: "int list list"

definition fits_int64 :: "int \<Rightarrow> bool" where
  "fits_int64 x \<longleftrightarrow> - (2 ^ 63) \<le> x \<and> x < 2 ^ 63"

definition fits_uint64 :: "int \<Rightarrow> bool" where
  "fits_uint64 x \<longleftrightarrow> 0 \<le> x \<and> x < 2 ^ 64"

definition np_array :: "int list list \<Rightarrow> ndarray" where
  "np_array rows =
     (let xs = concat rows in
      if list_all fits_int64 xs then \<lparr>dtype = Int64, cells = rows\<rparr>
      else if list_ex (\<lambda>x. \<not> fits_int64 x \<and> \<not> fits_uint64 x) xs
        then \<lparr>dtype = Object, cells = rows\<rparr>
      else if list_all (\<lambda>x. \<not> fits_int64 x) xs then \<lparr>dtype = UInt64, cells = rows\<rparr>
      else \<lparr>dtype = Float64, cells = map (map float64_of_int) rows\<rparr>)"

text \<open>\<^verbatim>\<open>_prepare_hypergeometric_test\<close>: Python sets are finite sets, \<^verbatim>\<open>len\<close> their
  cardinality, and the universe is an unbounded integer.\<close>

definition prepare_hypergeometric_test :: "string fset \<Rightarrow> string fset \<Rightarrow> int \<Rightarrow> ndarray" where
  "prepare_hypergeometric_test query_gene_set pathway_gene_set gene_universe =
     np_array
       [[int (fcard (query_gene_set |\<inter>| pathway_gene_set)),
         int (fcard (query_gene_set |-| pathway_gene_set))],
        [int (fcard (pathway_gene_set |-| query_gene_set)),
         gene_universe - int (fcard (pathway_gene_set |\<union>| query_gene_set))]]"

section \<open>Vocabulary of the properties\<close>

text \<open>An item passes the identifier check when the check raises nothing.\<close>

definition node_valid :: "check_fn \<Rightarrow> Node \<Rightarrow> bool" where
  "node_valid chk node \<longleftrightarrow> chk (db_ns node) (db_id node) = None"

definition rel_valid :: "check_fn \<Rightarrow> Relation \<Rightarrow> bool" where
  "rel_valid chk rel \<longleftrightarrow> rel_check chk rel = None"

text \<open>The list \<^verbatim>\<open>nodes\<close> of \<^verbatim>\<open>_dump_nodes_to_path\<close> once \<^verbatim>\<open>_dump_nodes\<close> has sorted the
  stream and \<^verbatim>\<open>validate_nodes\<close> has filtered it, and the list \<^verbatim>\<open>rels\<close> of
  \<^verbatim>\<open>_dump_edges\<close> once it is validated and sorted: the items the rows are made from.\<close>

definition written_nodes :: "check_fn \<Rightarrow> Node list \<Rightarrow> Node list" where
  "written_nodes chk get_nodes = fst (validate_nodes chk (sort_key node_key get_nodes))"

definition written_rels :: "check_fn \<Rightarrow> Relation list \<Rightarrow> Relation list" where
  "written_rels chk get_relations = sort_key rel_key (fst (validate_relations chk get_relations))"

text \<open>The rejections a validation pass logs, read off the input: index, item and the
  reason the check gave.\<close>

definition rejections :: "('a \<Rightarrow> string option) \<Rightarrow> 'a list \<Rightarrow> 'a rejection list" where
  "rejections check items =
     List.map_filter (\<lambda>(idx, item). map_option (\<lambda>e. (idx, item, e)) (check item)) (enumerate 0 items)"



text \<open>Keys in order of first occurrence, as a dict keeps them.\<close>

definition first_occurrences :: "'a list \<Rightarrow> 'a list" where
  "first_occurrences xs = rev (remdups (rev xs))"


section \<open>Concrete inputs\<close>

text \<open>A normalisation and a check to run the dump on: the id is
  \<^verbatim>\<open>namespace:local_id\<close>, and every identifier passes.\<close>

definition colon_id :: norm_id_fn where
  "colon_id ns i = ns @ '':'' @ i"

definition accept_all :: check_fn where
  "accept_all ns i = None"

definition a1 :: Node where
  "a1 = \<lparr>db_ns = ''A'', db_id = ''1'', labels = [''BioEntity''], data = []\<rparr>"

definition b2 :: Node where
  "b2 = \<lparr>db_ns = ''B'', db_id = ''2'', labels = [''BioEntity''], data = [(''name'', ''b'')]\<rparr>"

definition a1x :: Node where
  "a1x = \<lparr>db_ns = ''A'', db_id = ''1'', labels = [''x''], data = []\<rparr>"

definition a1y :: Node where
  "a1y = \<lparr>db_ns = ''A'', db_id = ''1'', labels = [''y''], data = []\<rparr>"

definition r1 :: Relation where
  "r1 = \<lparr>source_ns = ''HGNC'', source_id = ''1100'', target_ns = ''MESH'', target_id = ''D001943'',
         rel_type = ''isa'', rel_data = []\<rparr>"

definition r2 :: Relation where
  "r2 = \<lparr>source_ns = ''GO'', source_id = ''3677'', target_ns = ''MESH'', target_id = ''D001943'',
         rel_type = ''isa'', rel_data = [(''source'', ''x'')]\<rparr>"

definition c3 :: Node where
  "c3 = \<lparr>db_ns = ''HGNC'', db_id = ''1100'', labels = [''BioEntity'', ''Gene''],
         data = [(''name'', ''BRCA1'')]\<rparr>"

definition d4 :: Node where
  "d4 = \<lparr>db_ns = ''MESH'', db_id = ''D001943'', labels = [''BioEntity''],
         data = [(''kind'', ''disease'')]\<rparr>"







text \<open>Two gene sets with two genes in common.\<close>

definition genes_q :: "string fset" where
  "genes_q = {|''1'', ''2'', ''3''|}"

definition genes_p :: "string fset" where
  "genes_p = {|''2'', ''3'', ''4''|}"

section \<open>Validation is a filter with a log\<close>

lemma validate_nodes_from_eq:
  "validate_nodes_from chk i ns =
     (filter (node_valid chk) ns,
      List.map_filter (\<lambda>(idx, item). map_option (\<lambda>e. (idx, item, e)) (chk (db_ns item) (db_id item)))
        (enumerate i ns))"
  by (induction ns arbitrary: i) (auto simp: List.map_filter_simps node_valid_def split: option.splits)

lemma validate_relations_from_eq:
  "validate_relations_from chk i rs =
     (filter (rel_valid chk) rs,
      List.map_filter (\<lambda>(idx, item). map_option (\<lambda>e. (idx, item, e)) (rel_check chk item))
        (enumerate i rs))"
  by (induction rs arbitrary: i) (auto simp: List.map_filter_simps rel_valid_def split: option.splits)

lemma validate_nodes_eq:
  "validate_nodes chk ns = (filter (node_valid chk) ns, rejections (\<lambda>n. chk (db_ns n) (db_id n)) ns)"
  by (simp add: validate_nodes_def validate_nodes_from_eq rejections_def)

lemma validate_relations_eq:
  "validate_relations chk rs = (filter (rel_valid chk) rs, rejections (rel_check chk) rs)"
  by (simp add: validate_relations_def validate_relations_from_eq rejections_def)

lemma length_rejections:
  "length (rejections check items) = length (filter (\<lambda>x. check x \<noteq> None) items)"
proof -
  have "length (List.map_filter (\<lambda>(idx, item). map_option (\<lambda>e. (idx, item, e)) (check item))
                  (enumerate i items))
      = length (filter (\<lambda>x. check x \<noteq> None) items)" for i
    by (induction items arbitrary: i) (auto simp: List.map_filter_simps split: option.splits)
  then show ?thesis by (simp add: rejections_def)
qed

lemma length_filter_compl: "length (filter P xs) + length (filter (\<lambda>x. \<not> P x) xs) = length xs"
  by (induction xs) auto

lemma rel_valid_iff:
  "rel_valid chk rel \<longleftrightarrow>
     chk (source_ns rel) (source_id rel) = None \<and> chk (target_ns rel) (target_id rel) = None"
  by (simp add: rel_valid_def rel_check_def split: option.splits)

lemma written_nodes_eq: "written_nodes chk nodes = filter (node_valid chk) (sort_key node_key nodes)"
  by (simp add: written_nodes_def validate_nodes_eq)

lemma written_rels_eq: "written_rels chk rels = sort_key rel_key (filter (rel_valid chk) rels)"
  by (simp add: written_rels_def validate_relations_eq)

lemma sorted_written_nodes: "sorted (map node_key (written_nodes chk nodes))"
  by (simp add: written_nodes_eq sorted_filter)

lemma sorted_written_rels: "sorted (map rel_key (written_rels chk rels))"
  by (simp add: written_rels_eq)

lemma list_all_written_nodes: "list_all (node_valid chk) (written_nodes chk nodes)"
  by (simp add: written_nodes_eq list_all_iff)

lemma list_all_written_rels: "list_all (rel_valid chk) (written_rels chk rels)"
  by (simp add: written_rels_eq list_all_iff)

section \<open>The writing loops\<close>

lemma py_zip_eq: "py_zip xs ys = (zip xs ys, drop (Suc (length ys)) xs, drop (length xs) ys)"
  by (induction xs ys rule: py_zip.induct) auto

lemma map_snd_zip_upt: "map snd (zip [0..<n] rows) = take n rows"
  by (simp add: map_snd_zip_take min_def)

lemma sample_loop_nodes:
  "foldl (\<lambda>(sf, nf) (_, node_row). (sf @ [node_row], nf @ [node_row])) (s, f) pairs
     = (s @ map snd pairs, f @ map snd pairs)"
  by (induction pairs arbitrary: s f) auto

lemma dump_nodes_to_path_eq:
  "dump_nodes_to_path norm_id chk nodes sample =
     (let valid = filter (node_valid chk) nodes;
          metadata = node_metadata valid;
          header = ''id:ID'' # '':LABEL'' # metadata;
          rows = map (node_row norm_id metadata) valid
      in (header # rows,
          if sample then Some (header # take 10 rows) else None,
          rejections (\<lambda>n. chk (db_ns n) (db_id n)) nodes))"
  by (simp add: dump_nodes_to_path_def validate_nodes_eq py_zip_eq sample_loop_nodes
        map_snd_zip_upt Let_def)

lemma dump_nodes_eq:
  "dump_nodes norm_id chk nodes =
     (let W = written_nodes chk nodes;
          metadata = node_metadata W;
          header = ''id:ID'' # '':LABEL'' # metadata;
          rows = map (node_row norm_id metadata) W
      in \<lparr>nodes_pickle = sort_key node_key nodes,
          nodes_file = header # rows,
          nodes_sample_file = Some (header # take 10 rows),
          nodes_log = rejections (\<lambda>n. chk (db_ns n) (db_id n)) (sort_key node_key nodes)\<rparr>)"
  by (simp add: dump_nodes_def dump_nodes_to_path_eq written_nodes_def validate_nodes_eq Let_def)

lemma write_edge_loop:
  "foldl write_edge (f, c) rows =
     (f @ map writerow rows, foldl (\<lambda>c row. counter_incr (fst (snd (snd row))) c) c rows)"
  by (induction rows arbitrary: f c) (auto simp: write_edge_def)

lemma sample_loop_edges:
  "foldl (\<lambda>(sf, st) (_, row). (sf @ [writerow row], write_edge st row)) (s, st) pairs
     = (s @ map writerow (map snd pairs), foldl write_edge st (map snd pairs))"
  by (induction pairs arbitrary: s st) (simp_all add: case_prod_beta)

lemma edge_loops:
  "(case py_zip [0..<10] E of (pairs, _, E') \<Rightarrow>
      case foldl (\<lambda>(sf, st) (_, row). (sf @ [writerow row], write_edge st row)) (s, (f, c)) pairs of
        (s', st') \<Rightarrow>
      case foldl write_edge st' E' of (f', c') \<Rightarrow> G f' s' c')
   = G (f @ map writerow E) (s @ map writerow (take 10 E))
       (foldl (\<lambda>c row. counter_incr (fst (snd (snd row))) c) c E)"
proof -
  have z: "py_zip [0..<10] E = (zip [0..<10] E, drop (Suc (length E)) [0..<10], drop 10 E)"
    by (simp add: py_zip_eq)
  have l1: "foldl (\<lambda>(sf, st) (_, row). (sf @ [writerow row], write_edge st row)) (s, (f, c)) (zip [0..<10] E)
      = (s @ map writerow (take 10 E), foldl write_edge (f, c) (take 10 E))"
    unfolding sample_loop_edges map_snd_zip_upt ..
  have l2: "foldl write_edge (foldl write_edge (f, c) (take 10 E)) (drop 10 E)
      = (f @ map writerow E, foldl (\<lambda>c row. counter_incr (fst (snd (snd row))) c) c E)"
  proof -
    have "foldl write_edge (foldl write_edge (f, c) (take 10 E)) (drop 10 E)
        = foldl write_edge (f, c) (take 10 E @ drop 10 E)"
      by (simp only: foldl_append)
    then show ?thesis by (simp add: write_edge_loop)
  qed
  show ?thesis
    unfolding z prod.case l1 l2 ..
qed

lemma counter_of_rows:
  "foldl (\<lambda>c row. counter_incr (fst (snd (snd row))) c) c0 (map (edge_row norm_id md) rs)
      = foldl (\<lambda>c rel. counter_incr (rel_type rel) c) c0 rs"
  by (induction rs arbitrary: c0) (auto simp: edge_row_def)

lemma dump_edges_eq:
  "dump_edges norm_id chk rels =
     (let W = written_rels chk rels;
          metadata = rel_metadata W;
          header = '':START_ID'' # '':END_ID'' # '':TYPE'' # metadata;
          rows = map (writerow \<circ> edge_row norm_id metadata) W;
          counter = foldl (\<lambda>c rel. counter_incr (rel_type rel) c) [] W
      in \<lparr>edges_file = header # rows,
          edges_sample_file = header # take 10 rows,
          edges_summary_header = [''source_ns'', ''rel'', ''target_ns'', ''count''],
          edges_summary_rows = map summary_line (most_common counter),
          edges_counter = counter,
          edges_log = rejections (rel_check chk) rels\<rparr>)"
  unfolding dump_edges_def validate_relations_eq
  by (simp add: Let_def edge_loops counter_of_rows written_rels_eq take_map)

lemma node_metadata_props:
  "sorted (node_metadata ns) \<and> distinct (node_metadata ns)
   \<and> set (node_metadata ns) = (\<Union>node\<in>set ns. fst ` set (data node))"
  by (auto simp: node_metadata_def)

section \<open>The definitions, spelled out\<close>

lemma node_key_fun: "node_key = (\<lambda>n. (db_ns n, db_id n))"
  by (simp add: fun_eq_iff node_key_def)

lemma rel_key_fun: "rel_key = (\<lambda>r. (source_ns r, source_id r, target_ns r, target_id r))"
  by (simp add: fun_eq_iff rel_key_def)

lemma node_valid_fun: "node_valid chk = (\<lambda>n. chk (db_ns n) (db_id n) = None)"
  by (simp add: fun_eq_iff node_valid_def)

lemma rel_valid_fun:
  "rel_valid chk = (\<lambda>r. chk (source_ns r) (source_id r) = None \<and> chk (target_ns r) (target_id r) = None)"
  by (simp add: fun_eq_iff rel_valid_iff)

lemma rel_check_fun:
  "rel_check chk = (\<lambda>r. case chk (source_ns r) (source_id r) of Some e \<Rightarrow> Some e
                       | None \<Rightarrow> chk (target_ns r) (target_id r))"
  by (simp add: fun_eq_iff rel_check_def)

lemma join_eq:
  "join sep xs = (case xs of [] \<Rightarrow> [] | x # ys \<Rightarrow> x @ concat (map (\<lambda>y. sep @ y) ys))"
  by (induction sep xs rule: join.induct) simp_all

lemma hd_node_row: "hd (node_row norm_id md n) = norm_id (db_ns n) (db_id n)"
  by (simp add: node_row_def)

lemma take2_edge_row:
  "take 2 (writerow (edge_row norm_id md r))
     = [norm_id (source_ns r) (source_id r), norm_id (target_ns r) (target_id r)]"
  by (simp add: edge_row_def)

section \<open>The matrix of the hypergeometric test\<close>

lemma card_split3:
  assumes "finite Q" "finite P"
  shows "card (Q \<inter> P) + card (Q - P) + card (P - Q) = card (P \<union> Q)"
proof -
  have d: "P \<union> Q = (Q \<inter> P) \<union> (Q - P) \<union> (P - Q)" by blast
  have "card ((Q \<inter> P) \<union> (Q - P)) = card (Q \<inter> P) + card (Q - P)"
    using assms by (intro card_Un_disjoint) auto
  moreover have "card ((Q \<inter> P) \<union> (Q - P) \<union> (P - Q)) = card ((Q \<inter> P) \<union> (Q - P)) + card (P - Q)"
    using assms by (intro card_Un_disjoint) auto
  ultimately show ?thesis using d by simp
qed

lemma fcard_split3:
  "fcard (Q |\<inter>| P) + fcard (Q |-| P) + fcard (P |-| Q) = fcard (P |\<union>| Q)"
  using card_split3 [of "fset Q" "fset P"] by (simp add: fcard.rep_eq)

lemma bit_length_numeral:
  "bit_length (numeral (Num.Bit0 k)) = Suc (bit_length (numeral k))"
  "bit_length (numeral (Num.Bit1 k)) = Suc (bit_length (numeral k))"
  "bit_length (numeral Num.One) = 1"
  "bit_length (Suc 0) = 1"
  "bit_length 0 = 0"
  by (subst bit_length.simps, simp add: bit_length.simps [of 0] bit_length.simps [of 1] bit_length.simps [of "Suc 0"])+

lemma float64_small: "bit_length (nat \<bar>x\<bar>) \<le> 53 \<Longrightarrow> float64_of_int x = x"
  by (simp add: float64_of_int_def Let_def)

lemma float64_ex: "float64_of_int 9223372036854775809 = 9223372036854775808"
  by (simp add: float64_of_int_def bit_length_numeral Let_def)

lemma float64_1: "float64_of_int 1 = 1" "float64_of_int 2 = 2"
  by (simp_all add: float64_of_int_def bit_length_numeral Let_def)

lemma fcards_ex:
  "fcard (genes_q |\<inter>| genes_p) = 2" "fcard (genes_q |-| genes_p) = 1"
  "fcard (genes_p |-| genes_q) = 1" "fcard (genes_p |\<union>| genes_q) = 4"
  by code_simp+

lemma np_array_exact:
  assumes "list_all fits_int64 [a, b, c]"
    and "d < 2 ^ 63 \<or> 2 ^ 64 \<le> d"
  shows "cells (np_array [[a, b], [c, d]]) = [[a, b], [c, d]]
       \<and> dtype (np_array [[a, b], [c, d]]) \<noteq> Float64"
  using assms by (auto simp: np_array_def fits_int64_def fits_uint64_def Let_def)

section \<open>Claims about the gene list analysis\<close>

text \<open>
  C10, as the code has it. When the query set and the pathway set have fewer than
  \<open>2 ^ 63\<close> members and the bottom-right entry \<open>U - |Q \<union> P|\<close> lies outside the range from
  \<open>2 ^ 63\<close> up to but not including \<open>2 ^ 64\<close>, the array of
  \<^verbatim>\<open>_prepare_hypergeometric_test\<close> is 2x2, it is not a \<^verbatim>\<open>float64\<close> array, and its four
  entries sum to \<open>U\<close>; the bottom-right entry is \<open>U\<close> minus the size of the union, negative
  exactly when \<open>U\<close> is smaller than the union.
\<close>

theorem hypergeometric_matrix_exact_outside_float64_window:
  assumes "int (fcard Q) < 2 ^ 63" and "int (fcard P) < 2 ^ 63"
    and "U - int (fcard (P |\<union>| Q)) < 2 ^ 63 \<or> 2 ^ 64 \<le> U - int (fcard (P |\<union>| Q))"
  shows "sum_list (concat (cells (prepare_hypergeometric_test Q P U))) = U
   \<and> map length (cells (prepare_hypergeometric_test Q P U)) = [2, 2]
   \<and> cells (prepare_hypergeometric_test Q P U) ! 1 ! 1 = U - int (fcard (Q |\<union>| P))
   \<and> (cells (prepare_hypergeometric_test Q P U) ! 1 ! 1 < 0) = (U < int (fcard (Q |\<union>| P)))
   \<and> dtype (prepare_hypergeometric_test Q P U) \<noteq> Float64"
proof -
  have le: "fcard (Q |\<inter>| P) \<le> fcard Q" "fcard (Q |-| P) \<le> fcard Q" "fcard (P |-| Q) \<le> fcard P"
    by (simp_all add: fcard.rep_eq card_mono)
  have small: "list_all fits_int64
      [int (fcard (Q |\<inter>| P)), int (fcard (Q |-| P)), int (fcard (P |-| Q))]"
    using le assms(1,2) by (simp add: fits_int64_def)
  note ex = np_array_exact [OF small assms(3)]
  show ?thesis
    using ex fcard_split3 [of Q P]
    by (simp add: prepare_hypergeometric_test_def funion_commute)
qed

text \<open>C10 at work: two sets of three genes, two of them shared, in a universe of 20000.\<close>

theorem hypergeometric_matrix_exact_witness:
  "sum_list (concat (cells (prepare_hypergeometric_test genes_q genes_p 20000))) = 20000
   \<and> cells (prepare_hypergeometric_test genes_q genes_p 20000) ! 1 ! 1 = 19996
   \<and> dtype (prepare_hypergeometric_test genes_q genes_p 20000) \<noteq> Float64"
proof -
  have q: "fcard genes_q = 3" and p: "fcard genes_p = 3" and u: "fcard (genes_q |\<union>| genes_p) = 4"
    by code_simp+
  have 1: "int (fcard genes_q) < 2 ^ 63" by (simp add: q)
  have 2: "int (fcard genes_p) < 2 ^ 63" by (simp add: p)
  have 3: "20000 - int (fcard (genes_p |\<union>| genes_q)) < 2 ^ 63
           \<or> 2 ^ 64 \<le> 20000 - int (fcard (genes_p |\<union>| genes_q))"
    by (simp add: fcards_ex)
  show ?thesis using hypergeometric_matrix_exact_outside_float64_window [OF 1 2 3] by (simp add: u)
qed

text \<open>C10 as stated fails: with the universe \<open>2 ^ 63 + 5\<close> the bottom-right entry is
  \<open>2 ^ 63 + 1\<close>, the array is a \<^verbatim>\<open>float64\<close> array, the entry is stored as \<open>2 ^ 63\<close>, and the
  four entries sum to \<open>2 ^ 63 + 4\<close>.\<close>

theorem hypergeometric_matrix_rounded_in_float64:
  "prepare_hypergeometric_test genes_q genes_p 9223372036854775813
     = \<lparr>dtype = Float64, cells = [[2, 1], [1, 9223372036854775808]]\<rparr>
   \<and> sum_list (concat (cells (prepare_hypergeometric_test genes_q genes_p 9223372036854775813)))
     = 9223372036854775812"
  by (simp add: prepare_hypergeometric_test_def fcards_ex np_array_def fits_int64_def fits_uint64_def Let_def
      float64_ex float64_1)

section \<open>Claims about validation and the tables\<close>

text \<open>
  C6. Validation of a node stream returns exactly the nodes whose identifier passes the
  check, in input order, and logs for every other node its index in the input, the node
  and the reason the check gave. Validation of a relation stream returns exactly the
  relations whose source and target both pass, and logs for every other relation its
  index, the relation and the reason of the first of its two checks that fails. Validation
  is a total function, every item is either kept or logged, and every row of either
  table is made from an item that passes: the ids in the rows are the normalised ids of
  such items.
\<close>

theorem validation_keeps_exactly_the_valid_items:
  "validate_nodes chk nodes
     = (filter (\<lambda>node. chk (db_ns node) (db_id node) = None) nodes,
        List.map_filter
          (\<lambda>(idx, node). map_option (\<lambda>e. (idx, node, e)) (chk (db_ns node) (db_id node)))
          (enumerate 0 nodes))
   \<and> validate_relations chk rels
     = (filter (\<lambda>rel. chk (source_ns rel) (source_id rel) = None
                     \<and> chk (target_ns rel) (target_id rel) = None) rels,
        List.map_filter
          (\<lambda>(idx, rel). map_option (\<lambda>e. (idx, rel, e))
             (case chk (source_ns rel) (source_id rel) of
                Some e \<Rightarrow> Some e
              | None \<Rightarrow> chk (target_ns rel) (target_id rel)))
          (enumerate 0 rels))
   \<and> length (fst (validate_nodes chk nodes)) + length (snd (validate_nodes chk nodes)) = length nodes
   \<and> length (fst (validate_relations chk rels)) + length (snd (validate_relations chk rels))
     = length rels
   \<and> (let W = filter (\<lambda>node. chk (db_ns node) (db_id node) = None)
                 (sort_key (\<lambda>node. (db_ns node, db_id node)) nodes) in
        tl (nodes_file (dump_nodes norm_id chk nodes)) = map (node_row norm_id (node_metadata W)) W
      \<and> map hd (tl (nodes_file (dump_nodes norm_id chk nodes)))
          = map (\<lambda>node. norm_id (db_ns node) (db_id node)) W)
   \<and> (let R = sort_key (\<lambda>rel. (source_ns rel, source_id rel, target_ns rel, target_id rel))
                 (filter (\<lambda>rel. chk (source_ns rel) (source_id rel) = None
                               \<and> chk (target_ns rel) (target_id rel) = None) rels) in
        tl (edges_file (dump_edges norm_id chk rels))
          = map (writerow \<circ> edge_row norm_id (rel_metadata R)) R
      \<and> map (take 2) (tl (edges_file (dump_edges norm_id chk rels)))
          = map (\<lambda>rel. [norm_id (source_ns rel) (source_id rel),
                         norm_id (target_ns rel) (target_id rel)]) R)"
proof -
  have n: "length (filter (node_valid chk) nodes)
      + length (filter (\<lambda>x. chk (db_ns x) (db_id x) \<noteq> None) nodes) = length nodes"
    using length_filter_compl [of "node_valid chk" nodes] by (simp add: node_valid_def)
  have r: "length (filter (rel_valid chk) rels)
      + length (filter (\<lambda>x. rel_check chk x \<noteq> None) rels) = length rels"
    using length_filter_compl [of "rel_valid chk" rels] by (simp add: rel_valid_def)
  have vn: "validate_nodes chk nodes
     = (filter (\<lambda>node. chk (db_ns node) (db_id node) = None) nodes,
        List.map_filter
          (\<lambda>(idx, node). map_option (\<lambda>e. (idx, node, e)) (chk (db_ns node) (db_id node)))
          (enumerate 0 nodes))"
    by (simp add: validate_nodes_eq rejections_def node_valid_fun)
  have vr: "validate_relations chk rels
     = (filter (\<lambda>rel. chk (source_ns rel) (source_id rel) = None
                     \<and> chk (target_ns rel) (target_id rel) = None) rels,
        List.map_filter
          (\<lambda>(idx, rel). map_option (\<lambda>e. (idx, rel, e))
             (case chk (source_ns rel) (source_id rel) of
                Some e \<Rightarrow> Some e
              | None \<Rightarrow> chk (target_ns rel) (target_id rel)))
          (enumerate 0 rels))"
    by (simp add: validate_relations_eq rejections_def rel_valid_fun rel_check_fun)
  have ln: "length (fst (validate_nodes chk nodes)) + length (snd (validate_nodes chk nodes)) = length nodes"
    using n by (simp add: validate_nodes_eq length_rejections)
  have lr: "length (fst (validate_relations chk rels)) + length (snd (validate_relations chk rels))
     = length rels"
    using r by (simp add: validate_relations_eq length_rejections)
  have W: "written_nodes chk nodes = filter (\<lambda>node. chk (db_ns node) (db_id node) = None)
                 (sort_key (\<lambda>node. (db_ns node, db_id node)) nodes)"
    by (simp add: written_nodes_eq node_valid_fun node_key_fun)
  have R: "written_rels chk rels = sort_key (\<lambda>rel. (source_ns rel, source_id rel, target_ns rel, target_id rel))
                 (filter (\<lambda>rel. chk (source_ns rel) (source_id rel) = None
                               \<and> chk (target_ns rel) (target_id rel) = None) rels)"
    by (simp add: written_rels_eq rel_valid_fun rel_key_fun)
  have tn: "tl (nodes_file (dump_nodes norm_id chk nodes))
      = map (node_row norm_id (node_metadata (written_nodes chk nodes))) (written_nodes chk nodes)"
    by (simp add: dump_nodes_eq Let_def)
  have te: "tl (edges_file (dump_edges norm_id chk rels))
      = map (writerow \<circ> edge_row norm_id (rel_metadata (written_rels chk rels))) (written_rels chk rels)"
    by (simp add: dump_edges_eq Let_def)
  have hn: "map hd (tl (nodes_file (dump_nodes norm_id chk nodes)))
      = map (\<lambda>node. norm_id (db_ns node) (db_id node)) (written_nodes chk nodes)"
    unfolding tn by (simp add: hd_node_row)
  have he: "map (take 2) (tl (edges_file (dump_edges norm_id chk rels)))
      = map (\<lambda>rel. [norm_id (source_ns rel) (source_id rel),
                     norm_id (target_ns rel) (target_id rel)]) (written_rels chk rels)"
    unfolding te by (simp add: take2_edge_row)
  show ?thesis
    unfolding Let_def W [symmetric] R [symmetric]
    using vn vr ln lr tn te hn he by blast
qed

text \<open>
  C7. The node table written by \<^verbatim>\<open>_dump_nodes_to_path\<close> starts with the header
  \<^verbatim>\<open>id:ID\<close>, \<^verbatim>\<open>:LABEL\<close> and the property keys of the validated nodes, sorted and without
  repetition; after it comes one row per validated node: the normalised id, the labels
  with a semicolon between each two, and for each header key the value the node has for
  it, or the empty string.
\<close>

theorem node_table_header_and_rows:
  "(let valid = filter (\<lambda>node. chk (db_ns node) (db_id node) = None) nodes;
        metadata = node_metadata valid in
      fst (dump_nodes_to_path norm_id chk nodes sample)
        = (''id:ID'' # '':LABEL'' # metadata) #
          map (\<lambda>node. norm_id (db_ns node) (db_id node) #
                 (case labels node of [] \<Rightarrow> '''' | l # ls \<Rightarrow> l @ concat (map (\<lambda>x. '';'' @ x) ls)) #
                 map (\<lambda>key. case map_of (data node) key of Some v \<Rightarrow> v | None \<Rightarrow> '''') metadata)
            valid
      \<and> sorted metadata \<and> distinct metadata
      \<and> set metadata = (\<Union>node\<in>set valid. fst ` set (data node)))"
  unfolding Let_def
  using node_metadata_props [of "filter (node_valid chk) nodes"]
  by (simp add: dump_nodes_to_path_eq Let_def node_row_def join_eq node_valid_fun)

lemma md_ex: "node_metadata [c3, d4] = [''kind'', ''name'']"
  by code_simp

text \<open>C7 on two nodes: one has two labels and the property \<^verbatim>\<open>name\<close>, the other one label
  and the property \<^verbatim>\<open>kind\<close>.\<close>

theorem node_table_header_and_rows_witness:
  "fst (dump_nodes_to_path colon_id accept_all [c3, d4] True)
     = [[''id:ID'', '':LABEL'', ''kind'', ''name''],
        [''HGNC:1100'', ''BioEntity;Gene'', '''', ''BRCA1''],
        [''MESH:D001943'', ''BioEntity'', ''disease'', '''']]"
  using node_table_header_and_rows [of accept_all "[c3, d4]" colon_id True]
  by (simp add: Let_def accept_all_def md_ex) (simp add: c3_def d4_def colon_id_def)

text \<open>
  C8. The rows of the node table are made, in order, from the validated nodes of the
  stream arranged in nondecreasing order of \<^verbatim>\<open>(db_ns, db_id)\<close>, and the rows of the edge
  table from the validated relations arranged in nondecreasing order of
  \<^verbatim>\<open>(source_ns, source_id, target_ns, target_id)\<close>.
\<close>

theorem tables_in_key_order:
  "(let W = written_nodes chk nodes; R = written_rels chk rels in
      nodes_file (dump_nodes norm_id chk nodes)
        = (''id:ID'' # '':LABEL'' # node_metadata W) # map (node_row norm_id (node_metadata W)) W
    \<and> map hd (tl (nodes_file (dump_nodes norm_id chk nodes)))
        = map (\<lambda>node. norm_id (db_ns node) (db_id node)) W
    \<and> mset W = mset (filter (\<lambda>node. chk (db_ns node) (db_id node) = None) nodes)
    \<and> sorted (map (\<lambda>node. (db_ns node, db_id node)) W)
    \<and> edges_file (dump_edges norm_id chk rels)
        = ('':START_ID'' # '':END_ID'' # '':TYPE'' # rel_metadata R) #
          map (writerow \<circ> edge_row norm_id (rel_metadata R)) R
    \<and> map (take 2) (tl (edges_file (dump_edges norm_id chk rels)))
        = map (\<lambda>rel. [norm_id (source_ns rel) (source_id rel),
                       norm_id (target_ns rel) (target_id rel)]) R
    \<and> mset R = mset (filter (\<lambda>rel. chk (source_ns rel) (source_id rel) = None
                                  \<and> chk (target_ns rel) (target_id rel) = None) rels)
    \<and> sorted (map (\<lambda>rel. (source_ns rel, source_id rel, target_ns rel, target_id rel)) R))"
proof -
  have 1: "sorted (map (\<lambda>node. (db_ns node, db_id node)) (written_nodes chk nodes))"
    using sorted_written_nodes [of chk nodes] by (simp add: node_key_fun)
  have 2: "sorted (map (\<lambda>rel. (source_ns rel, source_id rel, target_ns rel, target_id rel))
             (written_rels chk rels))"
    using sorted_written_rels [of chk rels] by (simp add: rel_key_fun)
  have 3: "mset (written_nodes chk nodes) = mset (filter (\<lambda>node. chk (db_ns node) (db_id node) = None) nodes)"
    by (simp add: written_nodes_eq node_valid_fun)
  have 4: "mset (written_rels chk rels) = mset (filter (\<lambda>rel. chk (source_ns rel) (source_id rel) = None
                                  \<and> chk (target_ns rel) (target_id rel) = None) rels)"
    by (simp add: written_rels_eq rel_valid_fun)
  show ?thesis
    using 1 2 3 4
    by (simp add: dump_nodes_eq dump_edges_eq Let_def hd_node_row take2_edge_row comp_def)
qed

text \<open>
  C9. Each sample file holds the header of its table followed by the first
  \<open>min 10 n\<close> of the \<open>n\<close> data rows of that table, and the table itself holds the header
  followed by every row once, in order: the rows written through the sample loop are
  neither repeated nor lost.
\<close>

theorem sample_files_hold_first_ten_rows:
  "(let nd = dump_nodes norm_id chk nodes;
        ed = dump_edges norm_id chk rels;
        W = written_nodes chk nodes;
        R = written_rels chk rels;
        node_rows = map (node_row norm_id (node_metadata W)) W;
        edge_rows = map (writerow \<circ> edge_row norm_id (rel_metadata R)) R in
      nodes_file nd = hd (nodes_file nd) # node_rows
    \<and> nodes_sample_file nd = Some (hd (nodes_file nd) # take (min 10 (length node_rows)) node_rows)
    \<and> edges_file ed = hd (edges_file ed) # edge_rows
    \<and> edges_sample_file ed = hd (edges_file ed) # take (min 10 (length edge_rows)) edge_rows)"
  by (simp add: dump_nodes_eq dump_edges_eq Let_def min_def)

section \<open>A stable sort and the order of the input\<close>

lemma filter_eq_replicate_count: "filter (\<lambda>x. k = x) xs = replicate (count (mset xs) k) k"
  by (induction xs) auto

lemma sort_key_mset_eq:
  assumes m: "mset xs = mset ys"
    and inj: "inj_on f (set xs)"
  shows "sort_key f xs = sort_key f ys"
proof (rule properties_for_sort_key)
  show "mset (sort_key f ys) = mset xs" using m by simp
  show "sorted (map f (sort_key f ys))" by simp
  fix k assume "k \<in> set (sort_key f ys)"
  have s: "set ys = set xs" using m by (metis set_mset_mset)
  then have k: "k \<in> set xs" using \<open>k \<in> set (sort_key f ys)\<close> by simp
  have a: "filter (\<lambda>x. f k = f x) zs = filter (\<lambda>x. k = x) zs" if "set zs = set xs" for zs
    using that k inj by (intro filter_cong) (auto dest: inj_onD)
  have "filter (\<lambda>x. f k = f x) (sort_key f ys) = filter (\<lambda>x. f x = f k) (sort_key f ys)"
    by (intro filter_cong) auto
  also have "\<dots> = filter (\<lambda>x. f x = f k) ys" by (rule sort_key_stable)
  also have "\<dots> = filter (\<lambda>x. f k = f x) ys" by (intro filter_cong) auto
  also have "\<dots> = filter (\<lambda>x. k = x) ys" using a [OF s] .
  also have "\<dots> = filter (\<lambda>x. k = x) xs" by (simp add: filter_eq_replicate_count m)
  also have "\<dots> = filter (\<lambda>x. f k = f x) xs" using a [of xs] by simp
  finally show "filter (\<lambda>x. f k = f x) (sort_key f ys) = filter (\<lambda>x. f k = f x) xs" .
qed

section \<open>Claims about duplicates, reordering and references\<close>

text \<open>
  C1, as the code has it. The dump sorts the stream and never collapses duplicates: when
  the normalisation does not give the id of \<open>(ns, i)\<close> to any other identity of the
  stream, the number of rows of the node table with that id is the number of times the
  identity occurs in the stream if its identifier passes the check, and zero otherwise.
\<close>

theorem node_rows_per_identity:
  assumes "\<forall>n\<in>set nodes. norm_id (db_ns n) (db_id n) = norm_id ns i \<longrightarrow> node_key n = (ns, i)"
  shows "length (filter (\<lambda>row. hd row = norm_id ns i) (tl (nodes_file (dump_nodes norm_id chk nodes))))
    = (if chk ns i = None then length (filter (\<lambda>n. node_key n = (ns, i)) nodes) else 0)"
proof -
  let ?W = "written_nodes chk nodes"
  have rows: "tl (nodes_file (dump_nodes norm_id chk nodes)) = map (node_row norm_id (node_metadata ?W)) ?W"
    by (simp add: dump_nodes_eq Let_def)
  have "length (filter (\<lambda>row. hd row = norm_id ns i) (map (node_row norm_id (node_metadata ?W)) ?W))
      = length (filter (\<lambda>n. norm_id (db_ns n) (db_id n) = norm_id ns i) ?W)"
    by (simp add: filter_map comp_def node_row_def)
  also have "\<dots> = length (filter (\<lambda>n. node_key n = (ns, i)) ?W)"
  proof -
    have "filter (\<lambda>n. norm_id (db_ns n) (db_id n) = norm_id ns i) ?W = filter (\<lambda>n. node_key n = (ns, i)) ?W"
      using assms by (intro filter_cong) (auto simp: written_nodes_eq node_key_def)
    then show ?thesis by simp
  qed
  also have "\<dots> = length (filter (\<lambda>n. node_valid chk n \<and> node_key n = (ns, i)) nodes)"
    by (simp add: written_nodes_eq filter_sort)
  also have "\<dots> = (if chk ns i = None then length (filter (\<lambda>n. node_key n = (ns, i)) nodes) else 0)"
  proof -
    have "filter (\<lambda>n. node_valid chk n \<and> node_key n = (ns, i)) nodes
        = (if chk ns i = None then filter (\<lambda>n. node_key n = (ns, i)) nodes else [])"
      by (auto simp: node_key_def node_valid_def filter_empty_conv intro!: filter_cong)
    then show ?thesis by simp
  qed
  finally show ?thesis using rows by simp
qed

text \<open>C1 at work: the identity \<^verbatim>\<open>("A", "1")\<close> occurs twice and has two rows.\<close>

theorem node_rows_per_identity_witness:
  "length (filter (\<lambda>row. hd row = colon_id ''A'' ''1'') (tl (nodes_file (dump_nodes colon_id accept_all [a1, b2, a1]))))
   = 2"
proof -
  have "\<forall>n\<in>set [a1, b2, a1]. colon_id (db_ns n) (db_id n) = colon_id ''A'' ''1'' \<longrightarrow> node_key n = (''A'', ''1'')"
    by (simp add: a1_def b2_def colon_id_def node_key_def)
  from node_rows_per_identity [OF this, of accept_all]
  show ?thesis by (simp add: accept_all_def a1_def b2_def node_key_def)
qed

text \<open>C1 as stated fails: a node identity that occurs twice in the stream has two rows
  in the node table, not one.\<close>

theorem duplicate_identity_has_two_rows:
  "length (filter (\<lambda>row. hd row = ''A:1'') (tl (nodes_file (dump_nodes colon_id accept_all [a1, b2, a1])))) = 2"
  by code_simp

text \<open>
  C2, as the code has it. The sorts are stable and compare the key only. Two streams with
  the same items, in any order, give the same node table when no two different nodes of
  the stream share the key \<^verbatim>\<open>(db_ns, db_id)\<close>, and the same edge table when no two different
  relations share the key \<^verbatim>\<open>(source_ns, source_id, target_ns, target_id)\<close>. For every
  stream and every key, the items with that key are written in the order the stream has
  them.
\<close>

theorem dump_independent_of_order_when_keys_distinct:
  "(mset nodes = mset nodes' \<and> inj_on (\<lambda>n. (db_ns n, db_id n)) (set nodes) \<longrightarrow>
      nodes_file (dump_nodes norm_id chk nodes) = nodes_file (dump_nodes norm_id chk nodes'))
   \<and> (mset rels = mset rels'
        \<and> inj_on (\<lambda>r. (source_ns r, source_id r, target_ns r, target_id r)) (set rels) \<longrightarrow>
      edges_file (dump_edges norm_id chk rels) = edges_file (dump_edges norm_id chk rels'))
   \<and> (let W = written_nodes chk nodes in
        tl (nodes_file (dump_nodes norm_id chk nodes)) = map (node_row norm_id (node_metadata W)) W
      \<and> map hd (tl (nodes_file (dump_nodes norm_id chk nodes)))
          = map (\<lambda>n. norm_id (db_ns n) (db_id n)) W
      \<and> filter (\<lambda>n. (db_ns n, db_id n) = k) W
          = filter (\<lambda>n. (db_ns n, db_id n) = k \<and> chk (db_ns n) (db_id n) = None) nodes)
   \<and> (let R = written_rels chk rels in
        tl (edges_file (dump_edges norm_id chk rels))
          = map (writerow \<circ> edge_row norm_id (rel_metadata R)) R
      \<and> map (take 2) (tl (edges_file (dump_edges norm_id chk rels)))
          = map (\<lambda>r. [norm_id (source_ns r) (source_id r), norm_id (target_ns r) (target_id r)]) R
      \<and> filter (\<lambda>r. (source_ns r, source_id r, target_ns r, target_id r) = k') R
          = filter (\<lambda>r. (source_ns r, source_id r, target_ns r, target_id r) = k'
                       \<and> chk (source_ns r) (source_id r) = None
                       \<and> chk (target_ns r) (target_id r) = None) rels)"
proof -
  have n: "nodes_file (dump_nodes norm_id chk nodes) = nodes_file (dump_nodes norm_id chk nodes')"
    if "mset nodes = mset nodes'" "inj_on (\<lambda>n. (db_ns n, db_id n)) (set nodes)"
  proof -
    have "written_nodes chk nodes = written_nodes chk nodes'"
      using that by (simp add: written_nodes_eq node_key_fun sort_key_mset_eq [of nodes nodes'])
    then show ?thesis by (simp add: dump_nodes_eq Let_def)
  qed
  have r: "edges_file (dump_edges norm_id chk rels) = edges_file (dump_edges norm_id chk rels')"
    if "mset rels = mset rels'"
      "inj_on (\<lambda>r. (source_ns r, source_id r, target_ns r, target_id r)) (set rels)"
  proof -
    have "mset (filter (rel_valid chk) rels) = mset (filter (rel_valid chk) rels')"
      using that(1) by (simp add: mset_filter)
    moreover have "inj_on rel_key (set (filter (rel_valid chk) rels))"
      using that(2) by (auto simp: rel_key_fun intro: inj_on_subset)
    ultimately have "written_rels chk rels = written_rels chk rels'"
      unfolding written_rels_eq by (rule sort_key_mset_eq)
    then show ?thesis by (simp add: dump_edges_eq Let_def)
  qed
  have sn: "filter (\<lambda>n. (db_ns n, db_id n) = k) (written_nodes chk nodes)
      = filter (\<lambda>n. (db_ns n, db_id n) = k \<and> chk (db_ns n) (db_id n) = None) nodes"
  proof -
    have "filter (\<lambda>n. node_key n = k) (written_nodes chk nodes)
        = filter (node_valid chk) (filter (\<lambda>n. node_key n = k) (sort_key node_key nodes))"
      by (simp add: written_nodes_eq conj_commute)
    also have "\<dots> = filter (node_valid chk) (filter (\<lambda>n. node_key n = k) nodes)"
      by (simp only: sort_key_stable)
    finally show ?thesis by (simp add: node_key_fun node_valid_fun conj_commute)
  qed
  have sr: "filter (\<lambda>r. (source_ns r, source_id r, target_ns r, target_id r) = k') (written_rels chk rels)
      = filter (\<lambda>r. (source_ns r, source_id r, target_ns r, target_id r) = k'
                       \<and> chk (source_ns r) (source_id r) = None
                       \<and> chk (target_ns r) (target_id r) = None) rels"
  proof -
    have "filter (\<lambda>r. rel_key r = k') (written_rels chk rels)
        = filter (\<lambda>r. rel_key r = k') (filter (rel_valid chk) rels)"
      unfolding written_rels_eq by (rule sort_key_stable)
    then show ?thesis by (simp add: rel_key_fun rel_valid_fun conj_commute conj_left_commute)
  qed
  have tn: "tl (nodes_file (dump_nodes norm_id chk nodes))
      = map (node_row norm_id (node_metadata (written_nodes chk nodes))) (written_nodes chk nodes)"
    by (simp add: dump_nodes_eq Let_def)
  have te: "tl (edges_file (dump_edges norm_id chk rels))
      = map (writerow \<circ> edge_row norm_id (rel_metadata (written_rels chk rels))) (written_rels chk rels)"
    by (simp add: dump_edges_eq Let_def)
  have hn: "map hd (tl (nodes_file (dump_nodes norm_id chk nodes)))
      = map (\<lambda>n. norm_id (db_ns n) (db_id n)) (written_nodes chk nodes)"
    unfolding tn by (simp add: hd_node_row)
  have he: "map (take 2) (tl (edges_file (dump_edges norm_id chk rels)))
      = map (\<lambda>r. [norm_id (source_ns r) (source_id r), norm_id (target_ns r) (target_id r)])
          (written_rels chk rels)"
    unfolding te by (simp add: take2_edge_row)
  show ?thesis
    unfolding Let_def using n r sn sr tn te hn he by blast
qed

text \<open>C2 at work: two nodes and two relations, in either order.\<close>

theorem dump_independent_of_order_witness:
  "nodes_file (dump_nodes colon_id accept_all [a1, b2]) = nodes_file (dump_nodes colon_id accept_all [b2, a1])
   \<and> edges_file (dump_edges colon_id accept_all [r1, r2]) = edges_file (dump_edges colon_id accept_all [r2, r1])"
proof -
  have 1: "mset [a1, b2] = mset [b2, a1]" by (simp add: add.commute)
  have 2: "inj_on (\<lambda>n. (db_ns n, db_id n)) (set [a1, b2])" by (simp add: a1_def b2_def)
  have 3: "mset [r1, r2] = mset [r2, r1]" by (simp add: add.commute)
  have 4: "inj_on (\<lambda>r. (source_ns r, source_id r, target_ns r, target_id r)) (set [r1, r2])"
    by (simp add: r1_def r2_def)
  show ?thesis
    using dump_independent_of_order_when_keys_distinct [of "[a1, b2]" "[b2, a1]" colon_id accept_all "[r1, r2]" "[r2, r1]"] 1 2 3 4
    by blast
qed

text \<open>C2 as stated fails: two nodes with the same key and different labels are written
  in the order the stream has them, so a permutation of the stream changes the table.\<close>

theorem reordering_changes_node_table:
  "mset [a1x, a1y] = mset [a1y, a1x]
   \<and> nodes_file (dump_nodes colon_id accept_all [a1x, a1y])
      = [[''id:ID'', '':LABEL''], [''A:1'', ''x''], [''A:1'', ''y'']]
   \<and> nodes_file (dump_nodes colon_id accept_all [a1y, a1x])
      = [[''id:ID'', '':LABEL''], [''A:1'', ''y''], [''A:1'', ''x'']]
   \<and> nodes_file (dump_nodes colon_id accept_all [a1x, a1y])
      \<noteq> nodes_file (dump_nodes colon_id accept_all [a1y, a1x])"
proof -
  have "mset [a1x, a1y] = mset [a1y, a1x]" by (simp add: add.commute)
  moreover have "nodes_file (dump_nodes colon_id accept_all [a1x, a1y])
      = [[''id:ID'', '':LABEL''], [''A:1'', ''x''], [''A:1'', ''y'']]" by code_simp
  moreover have "nodes_file (dump_nodes colon_id accept_all [a1y, a1x])
      = [[''id:ID'', '':LABEL''], [''A:1'', ''y''], [''A:1'', ''x'']]" by code_simp
  ultimately show ?thesis by simp
qed

text \<open>
  C5, as the code has it. \<^verbatim>\<open>_dump_edges\<close> never looks at the node stream: whatever the
  nodes of the run are, the edge table holds the header and one row for every relation
  whose source and target pass the identifier check, in key order, and the only
  relations left out are those the validation logs.
\<close>

theorem edge_table_ignores_node_stream:
  "(let R = written_rels chk rels; ed = snd (dump norm_id chk nodes rels) in
      edges_file ed
        = ('':START_ID'' # '':END_ID'' # '':TYPE'' # rel_metadata R) #
          map (writerow \<circ> edge_row norm_id (rel_metadata R)) R
    \<and> R = sort_key rel_key (filter (rel_valid chk) rels)
    \<and> length (tl (edges_file ed)) = length (filter (rel_valid chk) rels)
    \<and> edges_log ed = rejections (rel_check chk) rels)"
  by (simp add: dump_def dump_edges_eq Let_def written_rels_eq)

text \<open>C5 as stated fails: with an empty node stream the relation is written all the
  same; the node table is only its header, and nothing is logged, dropped or failed.\<close>

theorem dangling_relation_is_written:
  "nodes_file (fst (dump colon_id accept_all [] [r1])) = [[''id:ID'', '':LABEL'']]
   \<and> edges_file (snd (dump colon_id accept_all [] [r1]))
       = [['':START_ID'', '':END_ID'', '':TYPE''], [''HGNC:1100'', ''MESH:D001943'', ''isa'']]
   \<and> nodes_log (fst (dump colon_id accept_all [] [r1])) = []
   \<and> edges_log (snd (dump colon_id accept_all [] [r1])) = []"
  by code_simp

section \<open>The summary file\<close>

text \<open>
  C3 on two relations of type \<^verbatim>\<open>isa\<close>, one from \<^verbatim>\<open>HGNC\<close> and one from \<^verbatim>\<open>GO\<close>, both to
  \<^verbatim>\<open>MESH\<close>. The counter is keyed by the relation type alone, so it has the single entry
  \<^verbatim>\<open>isa\<close> with count 2, and the summary line unpacks that string into its characters:
  the fields are \<^verbatim>\<open>i\<close>, \<^verbatim>\<open>s\<close>, \<^verbatim>\<open>a\<close> and the count 2, not one line for each of the
  two triples with count 1.
\<close>

theorem summary_counts_by_relation_type_only:
  "edges_file (dump_edges colon_id accept_all [r1, r2])
     = [['':START_ID'', '':END_ID'', '':TYPE'', ''source''],
        [''GO:3677'', ''MESH:D001943'', ''isa'', ''x''],
        [''HGNC:1100'', ''MESH:D001943'', ''isa'', []]]
   \<and> edges_counter (dump_edges colon_id accept_all [r1, r2]) = [(''isa'', 2)]
   \<and> edges_summary_rows (dump_edges colon_id accept_all [r1, r2]) = [([''i'', ''s'', ''a''], 2)]"
  by code_simp

section \<open>Dicts keyed by node identity\<close>


lemma set_first_occurrences [simp]: "set (first_occurrences xs) = set xs"
  by (simp add: first_occurrences_def)

lemma distinct_first_occurrences [simp]: "distinct (first_occurrences xs)"
  by (simp add: first_occurrences_def)

























section \<open>Claims about the closure queries\<close>



end
